theory Spec2Isabelle
  imports Main "HOL-Library.Word"
begin

unbundle bit_operations_syntax

section \<open>Python values used by the programs\<close>

text \<open>
  A Python \<^verbatim>\<open>bytes\<close> object is a list of 8-bit words. A Python exception is a
  value; a function that can raise returns \<open>py_exception + 'a\<close>, with \<open>Inl\<close> the
  exception. \<open>ValueError\<close> carries the message the source gives it, since the mode
  functions tell their failures apart only by message.
\<close>

type_synonym byte = "8 word"
type_synonym bytes = "byte list"

datatype py_exception =
    ValueError string
  | IndexError
  | ZeroDivisionError
  | StructError
  | UnicodeEncodeError
  | UnicodeDecodeError
  | FileNotFoundError
  | AssertionError

text \<open>The slice \<^verbatim>\<open>xs[a:b]\<close> for indices \<open>0 \<le> a\<close>, \<open>0 \<le> b\<close>: Python clips it to the
  object, it never raises.\<close>

definition slice :: "'a list \<Rightarrow> nat \<Rightarrow> nat \<Rightarrow> 'a list" where
  "slice xs a b = take (b - a) (drop a xs)"

text \<open>\<^verbatim>\<open>bytes(a ^ b for a, b in zip(xs, ys))\<close>: \<open>zip\<close> stops at the shorter argument.\<close>

definition xor_bytes :: "bytes \<Rightarrow> bytes \<Rightarrow> bytes" where
  "xor_bytes xs ys = map (\<lambda>(a, b). a XOR b) (zip xs ys)"

text \<open>The blocks a loop \<^verbatim>\<open>for i in range(0, len(xs), n): xs[i:i + n]\<close> visits, in order.\<close>

function blocks_of :: "nat \<Rightarrow> 'a list \<Rightarrow> 'a list list" where
  "blocks_of n xs = (if n = 0 \<or> xs = [] then [] else take n xs # blocks_of n (drop n xs))"
  by pat_completeness auto
termination
  by (relation "measure (\<lambda>(n, xs). length xs)") auto

declare blocks_of.simps [simp del]

section \<open>The external Ascon module\<close>

text \<open>
  \<^verbatim>\<open>ascon.py\<close> is an external module, used through its interface; its three
  primitives are parameters of the model. \<open>ascon_encrypt M key nonce associateddata
  plaintext\<close> returns the ciphertext; \<open>ascon_decrypt\<close> returns \<open>Inr None\<close> where the
  Python function returns \<^verbatim>\<open>None\<close> (authentication failure) and \<open>Inl e\<close> where it raises.
  \<^verbatim>\<open>zero_bytes(n)\<close> of that module is \<open>n\<close> zero bytes.
\<close>

record ascon_module =
  ascon_hash :: "bytes \<Rightarrow> bytes"
  ascon_encrypt :: "bytes \<Rightarrow> bytes \<Rightarrow> bytes \<Rightarrow> bytes \<Rightarrow> bytes"
  ascon_decrypt :: "bytes \<Rightarrow> bytes \<Rightarrow> bytes \<Rightarrow> bytes \<Rightarrow> py_exception + bytes option"

definition zero_bytes :: "nat \<Rightarrow> bytes" where
  "zero_bytes n = replicate n 0"

section \<open>ascon\_modes.py: class AsconModes\<close>

text \<open>\<^verbatim>\<open>pad_data(data, block_size)\<close>. \<^verbatim>\<open>len(data) % block_size\<close> raises for a zero
  block size, and \<^verbatim>\<open>bytes([n] * n)\<close> raises for \<open>n > 255\<close>; the block size is a
  non-negative integer (every caller passes 16).\<close>

definition pad_data :: "bytes \<Rightarrow> nat \<Rightarrow> py_exception + bytes" where
  "pad_data data block_size =
     (if block_size = 0 then Inl ZeroDivisionError
      else let padding_length = block_size - (length data mod block_size) in
        if 256 \<le> padding_length then Inl (ValueError ''bytes must be in range(0, 256)'')
        else Inr (data @ replicate padding_length (of_nat padding_length)))"

text \<open>\<^verbatim>\<open>unpad_data(padded_data)\<close>. \<^verbatim>\<open>padded_data[-1]\<close> raises \<open>IndexError\<close> on the empty
  object; \<^verbatim>\<open>padded_data[-n:]\<close> and \<^verbatim>\<open>padded_data[:-n]\<close> clip at the start.\<close>

definition unpad_data :: "bytes \<Rightarrow> py_exception + bytes" where
  "unpad_data padded_data =
     (if padded_data = [] then Inl IndexError
      else let padding_length = unat (last padded_data) in
        if padding_length = 0 \<or> padding_length > 16 then Inl (ValueError ''Invalid padding'')
        else if drop (length padded_data - padding_length) padded_data
                  \<noteq> replicate padding_length (of_nat padding_length)
          then Inl (ValueError ''Invalid padding'')
        else Inr (take (length padded_data - padding_length) padded_data))"



fun cbc_decrypt_loop :: "ascon_module \<Rightarrow> bytes \<Rightarrow> bytes \<Rightarrow> bytes \<Rightarrow> bytes list \<Rightarrow> bytes" where
  "cbc_decrypt_loop M key previous_block plaintext [] = plaintext"
| "cbc_decrypt_loop M key previous_block plaintext (current_block # rest) =
     (let keystream = take 16 (ascon_encrypt M key previous_block [] (zero_bytes 16));
          decrypted = xor_bytes current_block keystream;
          plaintext_block = xor_bytes decrypted previous_block
      in cbc_decrypt_loop M key current_block (plaintext @ plaintext_block) rest)"

definition cbc_decrypt :: "ascon_module \<Rightarrow> bytes \<Rightarrow> bytes \<Rightarrow> bytes \<Rightarrow> py_exception + bytes" where
  "cbc_decrypt M key iv ciphertext =
     (if length key \<noteq> 16 then Inl (ValueError ''Key must be 16 bytes'')
      else if length iv \<noteq> 16 then Inl (ValueError ''IV must be 16 bytes'')
      else if length ciphertext mod 16 \<noteq> 0
        then Inl (ValueError ''Ciphertext length must be multiple of 16'')
      else unpad_data (cbc_decrypt_loop M key iv [] (blocks_of 16 ciphertext)))"



fun ofb_decrypt_loop :: "ascon_module \<Rightarrow> bytes \<Rightarrow> bytes \<Rightarrow> bytes \<Rightarrow> bytes list \<Rightarrow> bytes" where
  "ofb_decrypt_loop M key previous_block plaintext [] = plaintext"
| "ofb_decrypt_loop M key previous_block plaintext (block # rest) =
     (let keystream = take 16 (ascon_encrypt M key previous_block [] (zero_bytes 16));
          decrypted_block = xor_bytes block keystream
      in ofb_decrypt_loop M key keystream (plaintext @ decrypted_block) rest)"

definition ofb_decrypt :: "ascon_module \<Rightarrow> bytes \<Rightarrow> bytes \<Rightarrow> bytes \<Rightarrow> py_exception + bytes" where
  "ofb_decrypt M key iv ciphertext =
     (if length key \<noteq> 16 then Inl (ValueError ''Key must be 16 bytes'')
      else if length iv \<noteq> 16 then Inl (ValueError ''IV must be 16 bytes'')
      else if length ciphertext mod 16 \<noteq> 0
        then Inl (ValueError ''Ciphertext length must be multiple of 16'')
      else unpad_data (ofb_decrypt_loop M key iv [] (blocks_of 16 ciphertext)))"

section \<open>Python built-ins used by changes.py\<close>

text \<open>\<^verbatim>\<open>s.rfind(sub)\<close>: the highest index at which \<open>sub\<close> occurs in \<open>s\<close>, found by
  scanning down from the end; \<open>None\<close> stands for the result \<open>-1\<close>.\<close>

definition occurs_at :: "'a list \<Rightarrow> 'a list \<Rightarrow> nat \<Rightarrow> bool" where
  "occurs_at sub s i \<longleftrightarrow> take (length sub) (drop i s) = sub"

fun rfind_from :: "'a list \<Rightarrow> 'a list \<Rightarrow> nat \<Rightarrow> nat option" where
  "rfind_from s sub 0 = (if occurs_at sub s 0 then Some 0 else None)"
| "rfind_from s sub (Suc i) =
     (if occurs_at sub s (Suc i) then Some (Suc i) else rfind_from s sub i)"

definition rfind :: "'a list \<Rightarrow> 'a list \<Rightarrow> nat option" where
  "rfind s sub = rfind_from s sub (length s)"

text \<open>\<^verbatim>\<open>struct.pack\<close> and \<^verbatim>\<open>struct.unpack\<close> for the little-endian formats
  \<^verbatim>\<open><H\<close> (2 bytes) and \<^verbatim>\<open><Q\<close> (8 bytes): packing raises \<^verbatim>\<open>struct.error\<close> when the
  number does not fit, unpacking when the buffer has not exactly the format's size.\<close>

fun le_bytes :: "nat \<Rightarrow> nat \<Rightarrow> bytes" where
  "le_bytes 0 n = []"
| "le_bytes (Suc k) n = of_nat (n mod 256) # le_bytes k (n div 256)"

fun le_value :: "bytes \<Rightarrow> nat" where
  "le_value [] = 0"
| "le_value (b # bs) = unat b + 256 * le_value bs"

definition pack_H :: "nat \<Rightarrow> py_exception + bytes" where
  "pack_H n = (if n < 65536 then Inr (le_bytes 2 n) else Inl StructError)"

definition unpack_H :: "bytes \<Rightarrow> py_exception + nat" where
  "unpack_H buffer = (if length buffer = 2 then Inr (le_value buffer) else Inl StructError)"

definition pack_Q :: "nat \<Rightarrow> py_exception + bytes" where
  "pack_Q n = (if n < 2 ^ 64 then Inr (le_bytes 8 n) else Inl StructError)"

definition unpack_Q :: "bytes \<Rightarrow> py_exception + nat" where
  "unpack_Q buffer = (if length buffer = 8 then Inr (le_value buffer) else Inl StructError)"

text \<open>
  A Python \<^verbatim>\<open>str\<close> is represented by its UTF-8 encoding, so \<^verbatim>\<open>encode('utf-8')\<close> and
  \<^verbatim>\<open>decode('utf-8')\<close> keep the bytes and only check them: decoding raises on bytes that
  are not well-formed UTF-8 (the table of the Unicode standard, which Python's strict
  decoder follows), and a representation that is not well-formed stands for a string
  that cannot be encoded (one with a lone surrogate).
\<close>

type_synonym str = bytes

fun tail_ok :: "(nat \<times> nat) list \<Rightarrow> bytes \<Rightarrow> bool" where
  "tail_ok [] bs = True"
| "tail_ok ((lo, hi) # rs) [] = False"
| "tail_ok ((lo, hi) # rs) (b # bs) = (lo \<le> unat b \<and> unat b \<le> hi \<and> tail_ok rs bs)"

definition utf8_tail :: "byte \<Rightarrow> (nat \<times> nat) list option" where
  "utf8_tail b0 =
     (let x = unat b0 in
      if x < 0x80 then Some []
      else if 0xC2 \<le> x \<and> x \<le> 0xDF then Some [(0x80, 0xBF)]
      else if x = 0xE0 then Some [(0xA0, 0xBF), (0x80, 0xBF)]
      else if 0xE1 \<le> x \<and> x \<le> 0xEC then Some [(0x80, 0xBF), (0x80, 0xBF)]
      else if x = 0xED then Some [(0x80, 0x9F), (0x80, 0xBF)]
      else if 0xEE \<le> x \<and> x \<le> 0xEF then Some [(0x80, 0xBF), (0x80, 0xBF)]
      else if x = 0xF0 then Some [(0x90, 0xBF), (0x80, 0xBF), (0x80, 0xBF)]
      else if 0xF1 \<le> x \<and> x \<le> 0xF3 then Some [(0x80, 0xBF), (0x80, 0xBF), (0x80, 0xBF)]
      else if x = 0xF4 then Some [(0x80, 0x8F), (0x80, 0xBF), (0x80, 0xBF)]
      else None)"

fun utf8_valid :: "bytes \<Rightarrow> bool" where
  "utf8_valid [] = True"
| "utf8_valid (b0 # rest) =
     (case utf8_tail b0 of
        None \<Rightarrow> False
      | Some rs \<Rightarrow> tail_ok rs rest \<and> utf8_valid (drop (length rs) rest))"

definition encode_utf8 :: "str \<Rightarrow> py_exception + bytes" where
  "encode_utf8 s = (if utf8_valid s then Inr s else Inl UnicodeEncodeError)"

definition decode_utf8 :: "bytes \<Rightarrow> py_exception + str" where
  "decode_utf8 bs = (if utf8_valid bs then Inr bs else Inl UnicodeDecodeError)"

text \<open>The files: a path either names no file or holds a byte string.\<close>

type_synonym filesystem = "string \<rightharpoonup> bytes"

section \<open>ascon-code/changes.py\<close>

text \<open>
  Both \<^verbatim>\<open>changes.py\<close> files raise one exception class of their own, with these messages:
  \<^item> \<open>FailedToCreate e\<close>: "Failed to create signature: e";
  \<^item> \<open>FileTooSmall\<close>: "File too small to contain a valid signature";
  \<^item> \<open>NoValidSignatureFound\<close>: "No valid signature found";
  \<^item> \<open>DecryptionFailed\<close>: "Signature decryption failed" (Ascon file);
  \<^item> \<open>SignatureVerificationFailed\<close>: "Signature verification failed" (GIFT file);
  \<^item> \<open>ContentModified\<close>: "Document content has been modified" (Ascon file);
  \<^item> \<open>VerificationFailed e\<close>: "Verification failed: e", any other exception \<open>e\<close> caught.

  \<open>Uncaught e\<close> is an exception raised before the \<^verbatim>\<open>try\<close> block of a signing function.
\<close>

datatype signature_error =
    FailedToCreate py_exception
  | FileTooSmall
  | NoValidSignatureFound
  | DecryptionFailed
  | SignatureVerificationFailed
  | ContentModified
  | VerificationFailed py_exception

datatype create_error = Uncaught py_exception | SignatureError signature_error

definition MAGIC :: bytes where
  "MAGIC = [0x41, 0x53, 0x43, 0x4F, 0x4E, 0x5F, 0x53, 0x49, 0x47]"  \<comment> \<open>\<^verbatim>\<open>b"ASCON_SIG"\<close>\<close>

definition MIN_SIG_SIZE :: nat where
  "MIN_SIG_SIZE = length MAGIC + 8 + 16"

text \<open>The metadata block: each field after its 2-byte length.\<close>

definition metadata_block :: "bytes \<Rightarrow> bytes \<Rightarrow> py_exception + bytes" where
  "metadata_block timestamp author_id_bytes =
     (case pack_H (length timestamp) of
        Inl e \<Rightarrow> Inl e
      | Inr timestamp_len \<Rightarrow>
          (case pack_H (length author_id_bytes) of
             Inl e \<Rightarrow> Inl e
           | Inr author_id_len \<Rightarrow>
               Inr (timestamp_len @ timestamp @ author_id_len @ author_id_bytes)))"

text \<open>
  The arguments \<open>(key, nonce, associateddata, plaintext)\<close> with which the \<^verbatim>\<open>try\<close> block of
  \<^verbatim>\<open>create_document_signature\<close> calls \<^verbatim>\<open>ascon_encrypt\<close>. \<open>now\<close> is the value of
  \<^verbatim>\<open>datetime.now().isoformat()\<close> and \<open>nonce\<close> the value of \<^verbatim>\<open>get_random_bytes(16)\<close> in
  this call.
\<close>

definition ascon_encrypt_call ::
  "ascon_module \<Rightarrow> str \<Rightarrow> bytes \<Rightarrow> bytes \<Rightarrow> bytes \<Rightarrow> str
     \<Rightarrow> py_exception + (bytes \<times> bytes \<times> bytes \<times> bytes)" where
  "ascon_encrypt_call M now nonce document_content author_key author_id =
     (case encode_utf8 now of
        Inl e \<Rightarrow> Inl e
      | Inr timestamp \<Rightarrow>
          (case encode_utf8 author_id of
             Inl e \<Rightarrow> Inl e
           | Inr author_id_bytes \<Rightarrow>
               (case metadata_block timestamp author_id_bytes of
                  Inl e \<Rightarrow> Inl e
                | Inr metadata \<Rightarrow>
                    (let doc_hash = ascon_hash M document_content;
                         signature_data = metadata @ doc_hash
                     in Inr (author_key, nonce, [], signature_data)))))"

text \<open>The \<^verbatim>\<open>try\<close> block up to the final signature block.\<close>

definition final_signature ::
  "ascon_module \<Rightarrow> str \<Rightarrow> bytes \<Rightarrow> bytes \<Rightarrow> bytes \<Rightarrow> str \<Rightarrow> py_exception + bytes" where
  "final_signature M now nonce document_content author_key author_id =
     (case ascon_encrypt_call M now nonce document_content author_key author_id of
        Inl e \<Rightarrow> Inl e
      | Inr (key, nonce', associateddata, plaintext) \<Rightarrow>
          (let encrypted_signature = ascon_encrypt M key nonce' associateddata plaintext in
           case pack_Q (length encrypted_signature) of
             Inl e \<Rightarrow> Inl e
           | Inr sig_len \<Rightarrow> Inr (MAGIC @ sig_len @ nonce @ encrypted_signature)))"

definition create_document_signature ::
  "ascon_module \<Rightarrow> str \<Rightarrow> bytes \<Rightarrow> filesystem \<Rightarrow> string \<Rightarrow> bytes \<Rightarrow> str
     \<Rightarrow> (create_error + bytes \<times> nat) \<times> filesystem" where
  "create_document_signature M now nonce fs filepath author_key author_id =
     (case fs filepath of
        None \<Rightarrow> (Inl (Uncaught FileNotFoundError), fs)
      | Some document_content \<Rightarrow>
          if length author_key \<noteq> 16
          then (Inl (Uncaught (ValueError ''Author key must be exactly 16 bytes'')), fs)
          else
            (case final_signature M now nonce document_content author_key author_id of
               Inl e \<Rightarrow> (Inl (SignatureError (FailedToCreate e)), fs)
             | Inr signature \<Rightarrow>
                 (Inr (signature, length signature),
                  fs(filepath \<mapsto> document_content @ signature))))"

text \<open>Lines 126 to 146 of \<^verbatim>\<open>verify_document_signature\<close>: the decrypted block is parsed and
  the hash of the document compared with the stored one.\<close>

definition parse_signature_block ::
  "ascon_module \<Rightarrow> bytes \<Rightarrow> bytes \<Rightarrow> signature_error + bool \<times> str \<times> str" where
  "parse_signature_block M signature_block document_content =
     (case unpack_H (slice signature_block 0 2) of
        Inl e \<Rightarrow> Inl (VerificationFailed e)
      | Inr timestamp_len \<Rightarrow>
          (case decode_utf8 (slice signature_block 2 (2 + timestamp_len)) of
             Inl e \<Rightarrow> Inl (VerificationFailed e)
           | Inr timestamp \<Rightarrow>
               (let pos = 2 + timestamp_len in
                case unpack_H (slice signature_block pos (pos + 2)) of
                  Inl e \<Rightarrow> Inl (VerificationFailed e)
                | Inr author_id_len \<Rightarrow>
                    (let pos = pos + 2 in
                     case decode_utf8 (slice signature_block pos (pos + author_id_len)) of
                       Inl e \<Rightarrow> Inl (VerificationFailed e)
                     | Inr author_id \<Rightarrow>
                         (let pos = pos + author_id_len;
                              stored_hash = slice signature_block pos (pos + 32);
                              current_hash = ascon_hash M document_content
                          in if current_hash \<noteq> stored_hash then Inl ContentModified
                             else Inr (True, author_id, timestamp))))))"

text \<open>\<^verbatim>\<open>verify_document_signature\<close> on the bytes read from the file.\<close>

definition verify_content ::
  "ascon_module \<Rightarrow> bytes \<Rightarrow> bytes \<Rightarrow> signature_error + bool \<times> str \<times> str" where
  "verify_content M content author_key =
     (if length content < MIN_SIG_SIZE then Inl FileTooSmall
      else
        (case rfind content MAGIC of
           None \<Rightarrow> Inl NoValidSignatureFound
         | Some sig_start \<Rightarrow>
             (let pos = sig_start + length MAGIC in
              case unpack_Q (slice content pos (pos + 8)) of
                Inl e \<Rightarrow> Inl (VerificationFailed e)
              | Inr sig_len \<Rightarrow>
                  (let pos = pos + 8;
                       nonce = slice content pos (pos + 16);
                       pos = pos + 16;
                       encrypted_signature = slice content pos (pos + sig_len);
                       document_content = take sig_start content
                   in case ascon_decrypt M author_key nonce [] encrypted_signature of
                        Inl e \<Rightarrow> Inl (VerificationFailed e)
                      | Inr None \<Rightarrow> Inl DecryptionFailed
                      | Inr (Some signature_block) \<Rightarrow>
                          parse_signature_block M signature_block document_content))))"

definition verify_document_signature ::
  "ascon_module \<Rightarrow> filesystem \<Rightarrow> string \<Rightarrow> bytes \<Rightarrow> signature_error + bool \<times> str \<times> str" where
  "verify_document_signature M fs filepath author_key =
     (case fs filepath of
        None \<Rightarrow> Inl (VerificationFailed FileNotFoundError)
      | Some content \<Rightarrow> verify_content M content author_key)"

section \<open>Python built-ins used by gift-cofb/changes.py\<close>

text \<open>\<^verbatim>\<open>bytes.hex()\<close>, \<^verbatim>\<open>bytes.fromhex(s)\<close> (white space between the pairs of digits is
  skipped, anything else that is not a pair of hexadecimal digits raises) and
  \<^verbatim>\<open>s.ljust(n, c)\<close>. Strings of hexadecimal digits are character lists.\<close>

definition hex_digits :: string where
  "hex_digits = ''0123456789abcdef''"

definition hex_of_bytes :: "bytes \<Rightarrow> string" where
  "hex_of_bytes bs =
     concat (map (\<lambda>b. [hex_digits ! (unat b div 16), hex_digits ! (unat b mod 16)]) bs)"

definition hex_value :: "char \<Rightarrow> nat option" where
  "hex_value c =
     (let n = (of_char c :: nat) in
      if 48 \<le> n \<and> n \<le> 57 then Some (n - 48)
      else if 97 \<le> n \<and> n \<le> 102 then Some (n - 87)
      else if 65 \<le> n \<and> n \<le> 70 then Some (n - 55)
      else None)"

definition is_space :: "char \<Rightarrow> bool" where
  "is_space c \<longleftrightarrow> (of_char c :: nat) \<in> {32, 9, 10, 11, 12, 13}"

fun fromhex :: "string \<Rightarrow> py_exception + bytes" where
  "fromhex [] = Inr []"
| "fromhex [c] =
     (if is_space c then Inr []
      else Inl (ValueError ''non-hexadecimal number found in fromhex() arg''))"
| "fromhex (c # d # ds) =
     (if is_space c then fromhex (d # ds)
      else
        (case (hex_value c, hex_value d) of
           (Some h, Some l) \<Rightarrow>
             (case fromhex ds of
                Inl e \<Rightarrow> Inl e
              | Inr bs \<Rightarrow> Inr (of_nat (16 * h + l) # bs))
         | _ \<Rightarrow> Inl (ValueError ''non-hexadecimal number found in fromhex() arg'')))"

definition ljust :: "string \<Rightarrow> nat \<Rightarrow> char \<Rightarrow> string" where
  "ljust s n c = s @ replicate (n - length s) c"

section \<open>The external GIFT-COFB module\<close>

text \<open>
  \<^verbatim>\<open>gift_cofb.py\<close> is an external module as well. A block is a list of integers;
  \<open>string_to_list\<close> turns a string of hexadecimal digits into a block and
  \<open>list_to_string\<close> a list of blocks into such a string. \<open>gift_encrypt G message key
  associated_data nonce\<close> returns the encrypted blocks and the tag; \<open>gift_verify\<close> returns
  \<open>None\<close> where the Python method returns \<^verbatim>\<open>[-1]\<close>.
\<close>

record gift_module =
  string_to_list :: "string \<Rightarrow> int list"
  list_to_string :: "int list list \<Rightarrow> string"
  gift_encrypt ::
    "int list list \<Rightarrow> int list \<Rightarrow> int list list \<Rightarrow> int list \<Rightarrow> int list list \<times> int list"
  gift_verify ::
    "int list list \<Rightarrow> int list \<Rightarrow> int list list \<Rightarrow> int list \<Rightarrow> int list
       \<Rightarrow> int list list option"

section \<open>gift-cofb/changes.py\<close>

definition GIFT_MAGIC :: bytes where
  "GIFT_MAGIC = [0x47, 0x49, 0x46, 0x54, 0x5F, 0x53, 0x49, 0x47]"  \<comment> \<open>\<^verbatim>\<open>b"GIFT_SIG"\<close>\<close>

definition GIFT_MIN_SIG_SIZE :: nat where
  "GIFT_MIN_SIG_SIZE = length GIFT_MAGIC + 8 + 16"

text \<open>\<^verbatim>\<open>[string_to_list(h[i:i+32]) for i in range(0, len(h), 32)]\<close>, replaced by
  \<^verbatim>\<open>[[]]\<close> when it is empty.\<close>

definition hex_blocks :: "gift_module \<Rightarrow> string \<Rightarrow> int list list" where
  "hex_blocks G h =
     (let blocks = map (string_to_list G) (blocks_of 32 h)
      in if blocks = [] then [[]] else blocks)"

definition gift_nonce_hex :: "bytes \<Rightarrow> string" where
  "gift_nonce_hex document_content = ljust (take 32 (hex_of_bytes document_content)) 32 CHR ''0''"

text \<open>The arguments \<open>(message, key, associated_data, nonce)\<close> with which
  \<^verbatim>\<open>create_gift_document_signature\<close> calls \<^verbatim>\<open>gift_cofb.encrypt\<close>.\<close>

definition gift_encrypt_call ::
  "gift_module \<Rightarrow> str \<Rightarrow> bytes \<Rightarrow> string \<Rightarrow> str
     \<Rightarrow> py_exception + (int list list \<times> int list \<times> int list list \<times> int list)" where
  "gift_encrypt_call G now document_content author_key_hex author_id =
     (case encode_utf8 now of
        Inl e \<Rightarrow> Inl e
      | Inr timestamp \<Rightarrow>
          (case encode_utf8 author_id of
             Inl e \<Rightarrow> Inl e
           | Inr author_id_bytes \<Rightarrow>
               (case metadata_block timestamp author_id_bytes of
                  Inl e \<Rightarrow> Inl e
                | Inr metadata \<Rightarrow>
                    (let doc_hex = hex_of_bytes document_content;
                         doc_blocks = hex_blocks G doc_hex;
                         metadata_hex = hex_of_bytes metadata;
                         metadata_blocks = hex_blocks G metadata_hex;
                         key_list = string_to_list G author_key_hex;
                         nonce_list = string_to_list G (gift_nonce_hex document_content)
                     in Inr (metadata_blocks, key_list, doc_blocks, nonce_list)))))"

definition gift_final_signature ::
  "gift_module \<Rightarrow> str \<Rightarrow> bytes \<Rightarrow> string \<Rightarrow> str \<Rightarrow> py_exception + bytes" where
  "gift_final_signature G now document_content author_key_hex author_id =
     (case gift_encrypt_call G now document_content author_key_hex author_id of
        Inl e \<Rightarrow> Inl e
      | Inr (message, key, associated_data, nonce) \<Rightarrow>
          (case gift_encrypt G message key associated_data nonce of
             (encrypted_blocks, tag) \<Rightarrow>
               (case fromhex (list_to_string G encrypted_blocks) of
                  Inl e \<Rightarrow> Inl e
                | Inr encrypted_data \<Rightarrow>
                    (case fromhex (list_to_string G [tag]) of
                       Inl e \<Rightarrow> Inl e
                     | Inr tag_bytes \<Rightarrow>
                         (case pack_Q (length encrypted_data) of
                            Inl e \<Rightarrow> Inl e
                          | Inr sig_len \<Rightarrow>
                              (case fromhex (gift_nonce_hex document_content) of
                                 Inl e \<Rightarrow> Inl e
                               | Inr nonce_bytes \<Rightarrow>
                                   Inr (GIFT_MAGIC @ sig_len @ nonce_bytes
                                          @ encrypted_data @ tag_bytes)))))))"

definition create_gift_document_signature ::
  "gift_module \<Rightarrow> str \<Rightarrow> filesystem \<Rightarrow> string \<Rightarrow> string \<Rightarrow> str
     \<Rightarrow> (create_error + bytes \<times> nat) \<times> filesystem" where
  "create_gift_document_signature G now fs filepath author_key_hex author_id =
     (case fs filepath of
        None \<Rightarrow> (Inl (Uncaught FileNotFoundError), fs)
      | Some document_content \<Rightarrow>
          if length author_key_hex \<noteq> 32
          then (Inl (Uncaught
                  (ValueError ''Author key must be exactly 32 hex characters (16 bytes)'')), fs)
          else
            (case gift_final_signature G now document_content author_key_hex author_id of
               Inl e \<Rightarrow> (Inl (SignatureError (FailedToCreate e)), fs)
             | Inr signature \<Rightarrow>
                 (Inr (signature, length signature),
                  fs(filepath \<mapsto> document_content @ signature))))"

text \<open>Lines 165 to 176 of \<^verbatim>\<open>verify_gift_document_signature\<close>: the decrypted metadata is
  parsed; no hash is stored or compared in this variant.\<close>

definition parse_gift_metadata :: "bytes \<Rightarrow> signature_error + bool \<times> str \<times> str" where
  "parse_gift_metadata decrypted_data =
     (case unpack_H (slice decrypted_data 0 2) of
        Inl e \<Rightarrow> Inl (VerificationFailed e)
      | Inr timestamp_len \<Rightarrow>
          (case decode_utf8 (slice decrypted_data 2 (2 + timestamp_len)) of
             Inl e \<Rightarrow> Inl (VerificationFailed e)
           | Inr timestamp \<Rightarrow>
               (let pos = 2 + timestamp_len in
                case unpack_H (slice decrypted_data pos (pos + 2)) of
                  Inl e \<Rightarrow> Inl (VerificationFailed e)
                | Inr author_id_len \<Rightarrow>
                    (let pos = pos + 2 in
                     case decode_utf8 (slice decrypted_data pos (pos + author_id_len)) of
                       Inl e \<Rightarrow> Inl (VerificationFailed e)
                     | Inr author_id \<Rightarrow> Inr (True, author_id, timestamp)))))"

definition verify_gift_content ::
  "gift_module \<Rightarrow> bytes \<Rightarrow> string \<Rightarrow> signature_error + bool \<times> str \<times> str" where
  "verify_gift_content G content author_key_hex =
     (if length content < GIFT_MIN_SIG_SIZE then Inl FileTooSmall
      else
        (case rfind content GIFT_MAGIC of
           None \<Rightarrow> Inl NoValidSignatureFound
         | Some sig_start \<Rightarrow>
             (let pos = sig_start + length GIFT_MAGIC in
              case unpack_Q (slice content pos (pos + 8)) of
                Inl e \<Rightarrow> Inl (VerificationFailed e)
              | Inr sig_len \<Rightarrow>
                  (let pos = pos + 8;
                       nonce = slice content pos (pos + 16);
                       pos = pos + 16;
                       encrypted_data = slice content pos (pos + sig_len);
                       tag = slice content (pos + sig_len) (pos + sig_len + 16);
                       document_content = take sig_start content;
                       key_list = string_to_list G author_key_hex;
                       nonce_list = string_to_list G (hex_of_bytes nonce);
                       doc_blocks = hex_blocks G (hex_of_bytes document_content);
                       encrypted_blocks = hex_blocks G (hex_of_bytes encrypted_data)
                   in case gift_verify G encrypted_blocks key_list doc_blocks nonce_list
                             (string_to_list G (hex_of_bytes tag)) of
                        None \<Rightarrow> Inl SignatureVerificationFailed
                      | Some decrypted_blocks \<Rightarrow>
                          (case fromhex (list_to_string G decrypted_blocks) of
                             Inl e \<Rightarrow> Inl (VerificationFailed e)
                           | Inr decrypted_data \<Rightarrow> parse_gift_metadata decrypted_data)))))"

definition verify_gift_document_signature ::
  "gift_module \<Rightarrow> filesystem \<Rightarrow> string \<Rightarrow> string \<Rightarrow> signature_error + bool \<times> str \<times> str" where
  "verify_gift_document_signature G fs filepath author_key_hex =
     (case fs filepath of
        None \<Rightarrow> Inl (VerificationFailed FileNotFoundError)
      | Some content \<Rightarrow> verify_gift_content G content author_key_hex)"

section \<open>The test message of the mode tests\<close>

text \<open>A byte string literal of ASCII characters, and the plaintext of the concrete
  scenario: \<^verbatim>\<open>b"This is a test message for encryption modes!"\<close>.\<close>

definition ascii :: "string \<Rightarrow> bytes" where
  "ascii s = map (\<lambda>c. of_nat (of_char c)) s"


section \<open>What is assumed of the external primitives\<close>

text \<open>
  The Ascon hash returns 32 bytes. Under a 16-byte key and a 16-byte nonce and with
  empty associated data, Ascon encryption returns the plaintext's length plus a 16-byte
  tag, and decryption under the same key and nonce returns the plaintext.
\<close>

definition ascon_contract :: "ascon_module \<Rightarrow> bool" where
  "ascon_contract M \<longleftrightarrow>
     (\<forall>d. length (ascon_hash M d) = 32) \<and>
     (\<forall>key nonce pt. length key = 16 \<longrightarrow> length nonce = 16 \<longrightarrow>
        length (ascon_encrypt M key nonce [] pt) = length pt + 16 \<and>
        ascon_decrypt M key nonce [] (ascon_encrypt M key nonce [] pt) = Inr (Some pt))"


section \<open>A small instance of each external module\<close>

text \<open>
  The theorems below hold for every module that meets the assumptions above. To apply
  them to concrete inputs, and to run the programs on concrete files, a module is
  needed; these are the simplest ones: a one-byte XOR mask as keystream, key XOR nonce
  as tag, and the zero-padded first 32 bytes as hash.
\<close>

definition demo_mask :: "bytes \<Rightarrow> bytes \<Rightarrow> byte" where
  "demo_mask key nonce = foldr (XOR) (key @ nonce) 0"

definition demo_encrypt :: "bytes \<Rightarrow> bytes \<Rightarrow> bytes \<Rightarrow> bytes \<Rightarrow> bytes" where
  "demo_encrypt key nonce associateddata plaintext =
     map (\<lambda>b. b XOR demo_mask key nonce) plaintext @ xor_bytes key nonce"

definition demo_decrypt :: "bytes \<Rightarrow> bytes \<Rightarrow> bytes \<Rightarrow> bytes \<Rightarrow> py_exception + bytes option" where
  "demo_decrypt key nonce associateddata ciphertext =
     (if length key \<noteq> 16 \<or> length nonce \<noteq> 16 \<or> length ciphertext < 16 then Inl AssertionError
      else if drop (length ciphertext - 16) ciphertext = xor_bytes key nonce
        then Inr (Some (map (\<lambda>b. b XOR demo_mask key nonce)
                          (take (length ciphertext - 16) ciphertext)))
      else Inr None)"

definition demo_hash :: "bytes \<Rightarrow> bytes" where
  "demo_hash data = take 32 (data @ replicate 32 0)"

definition demo_ascon :: ascon_module where
  "demo_ascon =
     \<lparr>ascon_hash = demo_hash, ascon_encrypt = demo_encrypt, ascon_decrypt = demo_decrypt\<rparr>"

definition demo_gift :: gift_module where
  "demo_gift =
     \<lparr>string_to_list = map (\<lambda>c. case hex_value c of Some v \<Rightarrow> int v | None \<Rightarrow> 0),
      list_to_string = (\<lambda>blocks. concat (map (map (\<lambda>x. hex_digits ! nat x)) blocks)),
      gift_encrypt = (\<lambda>message key associated_data nonce. (message, nonce)),
      gift_verify = (\<lambda>encrypted key associated_data nonce tag.
                       if tag = nonce then Some encrypted else None)\<rparr>"

section \<open>Concrete inputs\<close>

text \<open>
  A key, a document, two authors and a time stamp as \<^verbatim>\<open>datetime.now().isoformat()\<close>
  returns it, and three values of \<^verbatim>\<open>get_random_bytes(16)\<close>: an ordinary one, one that
  contains the magic tag, and one for which the tag of the small instance (key XOR
  nonce) ends with \<^verbatim>\<open>b"ASCON"\<close>.
\<close>

definition demo_key :: bytes where
  "demo_key = replicate 16 0x10"

definition demo_document :: bytes where
  "demo_document = ascii ''hello''"

definition demo_fs :: filesystem where
  "demo_fs = [''doc.txt'' \<mapsto> demo_document]"

definition demo_now :: str where
  "demo_now = ascii ''2024-01-01T00:00:00''"

definition demo_author :: str where
  "demo_author = ascii ''alice''"

definition demo_author2 :: str where
  "demo_author2 = ascii ''bob''"

definition demo_nonce :: bytes where
  "demo_nonce = replicate 15 0x01 @ [0x02]"

definition magic_nonce :: bytes where
  "magic_nonce = MAGIC @ replicate 7 0"

definition tail_nonce :: bytes where
  "tail_nonce = replicate 11 0x01 @ map (\<lambda>b. b XOR 0x10) (ascii ''ASCON'')"

section \<open>Padding\<close>

lemma pad_data_16:
  "pad_data data 16 =
     Inr (data @ replicate (16 - length data mod 16) (of_nat (16 - length data mod 16)))"
  by (simp add: pad_data_def Let_def)

lemma unpad_data_append_padding:
  assumes "0 < n" and "n \<le> 16"
  shows "unpad_data (data @ replicate n (of_nat n)) = Inr data"
proof -
  from assms have u: "unat (of_nat n :: byte) = n"
    by (simp add: unat_of_nat)
  from assms have l: "last (data @ replicate n (of_nat n :: byte)) = of_nat n"
    by simp
  show ?thesis
    unfolding unpad_data_def using assms u l by (simp add: Let_def)
qed

lemma unpad_padded:
  "unpad_data (data @ replicate (16 - length data mod 16) (of_nat (16 - length data mod 16)))
     = Inr data"
  by (rule unpad_data_append_padding) simp_all

text \<open>
  C6. For every byte string \<open>data\<close>, the empty one and those of aligned length
  included, \<open>pad_data data 16\<close> appends \<open>n\<close> bytes of value \<open>n\<close>, where
  \<open>n = 16 - (len(data) mod 16)\<close> lies between 1 and 16 (so an aligned input receives a
  whole block and never zero bytes), and \<open>unpad_data\<close> of the result is \<open>data\<close> again.
\<close>

theorem pad_then_unpad_identity:
  fixes data :: bytes
  defines "n \<equiv> 16 - length data mod 16"
  shows "pad_data data 16 = Inr (data @ replicate n (of_nat n))
       \<and> 1 \<le> n \<and> n \<le> 16
       \<and> (length data mod 16 = 0 \<longrightarrow> n = 16)
       \<and> unpad_data (data @ replicate n (of_nat n)) = Inr data"
proof -
  have b: "1 \<le> n \<and> n \<le> 16"
    unfolding n_def by (simp add: Suc_le_eq)
  have p: "pad_data data 16 = Inr (data @ replicate n (of_nat n))"
    unfolding n_def by (rule pad_data_16)
  have u: "unpad_data (data @ replicate n (of_nat n)) = Inr data"
    unfolding n_def by (rule unpad_padded)
  have a: "length data mod 16 = 0 \<longrightarrow> n = 16"
    unfolding n_def by simp
  from p b a u show ?thesis by blast
qed

theorem pad_then_unpad_identity_witness:
  "pad_data (replicate 16 7) 16 = Inr (replicate 16 7 @ replicate 16 16)
   \<and> unpad_data (replicate 16 7 @ replicate 16 16) = Inr (replicate 16 7)"
  using pad_then_unpad_identity [of "replicate 16 7"] by simp

section \<open>Blocks and the mode loops\<close>


lemma blocks_of_stop: "n = 0 \<or> xs = [] \<Longrightarrow> blocks_of n xs = []"
  by (subst blocks_of.simps) simp







lemma length_xor_bytes [simp]: "length (xor_bytes xs ys) = min (length xs) (length ys)"
  by (simp add: xor_bytes_def)





section \<open>CBC and OFB: decryption inverts encryption\<close>










text \<open>
  C9. On the empty ciphertext, with a 16-byte key and a 16-byte IV, \<open>cbc_decrypt\<close>
  and \<open>ofb_decrypt\<close> pass the three length checks, visit no block, and end in the
  \<open>IndexError\<close> of \<open>unpad_data\<close> reading the last byte of an empty buffer, which is
  not the \<open>ValueError\<close> "Invalid padding".
\<close>

theorem decrypt_empty_ciphertext:
  assumes "length key = 16" and "length iv = 16"
  shows "blocks_of 16 ([] :: bytes) = []
       \<and> cbc_decrypt M key iv [] = Inl IndexError
       \<and> ofb_decrypt M key iv [] = Inl IndexError
       \<and> Inl IndexError \<noteq> (Inl (ValueError ''Invalid padding'') :: py_exception + bytes)"
  using assms
  by (simp add: cbc_decrypt_def ofb_decrypt_def unpad_data_def blocks_of_stop)

theorem decrypt_empty_ciphertext_witness:
  "cbc_decrypt demo_ascon (replicate 16 0) (replicate 16 0) [] = Inl IndexError
 \<and> ofb_decrypt demo_ascon (replicate 16 0) (replicate 16 0) [] = Inl IndexError"
  using decrypt_empty_ciphertext [of "replicate 16 0" "replicate 16 0" demo_ascon]
  by simp

end
